theory Spec2Isabelle
  imports Complex_Main "HOL-Library.Sublist" "HOL-Library.Char_ord"
    "HOL-Library.List_Lexorder" "HOL-Library.Product_Lexorder"
begin

section \<open>Python values shared by the modelled modules\<close>

text \<open>
  A Python float is either a finite number, an infinity or a NaN. The only float
  operation the modelled code performs is the comparison \<open>x > 0.0\<close>, which is exact:
  it holds for the positive finite values and for the positive infinity, and for
  nothing else (not for \<open>-0.0\<close>, not for a NaN).
\<close>

datatype pyfloat = Finite real | PosInf | NegInf | NaN

fun gt_zero :: "pyfloat \<Rightarrow> bool" where
  "gt_zero (Finite r) = (0 < r)"
| "gt_zero PosInf = True"
| "gt_zero NegInf = False"
| "gt_zero NaN = False"

text \<open>The exceptions the modelled code raises, each with its message.\<close>

datatype error =
    PermissionError string
  | RuntimeError string
  | InvalidStateError
  | IndexError
  | ValueError string
  | ModuleNotFoundError string
  | OtherException string

section \<open>cocoa: \<open>toga_cocoa/hardware/geolocation.py\<close>\<close>

subsection \<open>Data\<close>

text \<open>
  Modelled from the spec: the enumeration \<open>CLAuthorizationStatus\<close> of
  \<open>toga_cocoa.libs\<close> is not part of the sources at hand. The code names three of its
  members (\<open>NotDetermined\<close>, \<open>AuthorizedAlways\<close>, \<open>AuthorizedWhenInUse\<close>), the
  specification names the denied state; \<open>Restricted\<close> is the remaining member of the
  native enumeration.
\<close>

datatype CLAuthorizationStatus =
  NotDetermined | Restricted | Denied | AuthorizedAlways | AuthorizedWhenInUse

text \<open>The native location object, as far as the code reads it.\<close>

record CLLocationCoordinate2D =
  latitude :: pyfloat
  longitude :: pyfloat

record CLLocation =
  coordinate :: CLLocationCoordinate2D
  verticalAccuracy :: pyfloat
  ellipsoidalAltitude :: pyfloat

text \<open>\<open>toga.LatLng\<close>: a pair of a latitude and a longitude.\<close>

datatype LatLng = LatLng (lat: pyfloat) (lng: pyfloat)

text \<open>
  A result cell is a future: pending, or settled once with a value or with an
  exception. Cells live in a store addressed by references, since the same cell is
  held by the queue and by the caller that awaits it.
\<close>

datatype pyvalue = VBool bool | VLatLng LatLng

datatype cell = Pending | Result pyvalue | Exception error

type_synonym fut = nat

text \<open>The methods of the native location manager that the code invokes.\<close>

datatype native_call =
  RequestAlwaysAuthorization | RequestLocation | StartUpdatingLocation | StopUpdatingLocation

text \<open>
  The state of a \<open>Geolocation\<close> object and of what it reaches: the status and the
  cached location reported by the native manager, the log of the methods invoked on
  the native manager, the two queues, the store of result cells, and the log of the
  invocations of the interface's \<open>on_change\<close> listener (location and altitude).
\<close>

record Geolocation =
  authorizationStatus :: CLAuthorizationStatus
  native_location :: "CLLocation option"
  native_calls :: "native_call list"
  permission_requests :: "fut list"
  location_requests :: "fut list"
  futures :: "fut \<Rightarrow> cell"
  on_change_calls :: "(LatLng \<times> pyfloat option) list"

text \<open>
  Every method returns the exception it raised, if any, together with the state it
  left behind.
\<close>

type_synonym 'a outcome = "error option \<times> 'a"

subsection \<open>Result cells\<close>

text \<open>\<open>Future.set_result\<close> and \<open>Future.set_exception\<close> refuse a settled cell.\<close>

definition set_result :: "fut \<Rightarrow> pyvalue \<Rightarrow> Geolocation \<Rightarrow> Geolocation outcome" where
  "set_result f v s =
     (if futures s f = Pending
      then (None, s\<lparr>futures := (futures s)(f := Result v)\<rparr>)
      else (Some InvalidStateError, s))"

definition set_exception :: "fut \<Rightarrow> error \<Rightarrow> Geolocation \<Rightarrow> Geolocation outcome" where
  "set_exception f e s =
     (if futures s f = Pending
      then (None, s\<lparr>futures := (futures s)(f := Exception e)\<rparr>)
      else (Some InvalidStateError, s))"

lemma set_result_location_requests:
  "set_result f v s = (r, s') \<Longrightarrow> location_requests s' = location_requests s"
  by (auto simp: set_result_def split: if_splits)

lemma set_exception_location_requests:
  "set_exception f e s = (r, s') \<Longrightarrow> location_requests s' = location_requests s"
  by (auto simp: set_exception_def split: if_splits)

subsection \<open>Permissions\<close>

definition has_permission :: "Geolocation \<Rightarrow> bool \<Rightarrow> bool" where
  "has_permission s allow_unknown =
     (let valid_values = {AuthorizedAlways, AuthorizedWhenInUse};
          valid_values = (if allow_unknown then insert NotDetermined valid_values
                          else valid_values)
      in authorizationStatus s \<in> valid_values)"

definition has_background_permission :: "Geolocation \<Rightarrow> bool" where
  "has_background_permission s = (authorizationStatus s = AuthorizedAlways)"

definition request_permission :: "fut \<Rightarrow> Geolocation \<Rightarrow> Geolocation outcome" where
  "request_permission future s =
     (None, s\<lparr>permission_requests := permission_requests s @ [future],
              native_calls := native_calls s @ [RequestAlwaysAuthorization]\<rparr>)"

definition request_background_permission :: "fut \<Rightarrow> Geolocation \<Rightarrow> Geolocation outcome" where
  "request_background_permission future s =
     (None, s\<lparr>permission_requests := permission_requests s @ [future],
              native_calls := native_calls s @ [RequestAlwaysAuthorization]\<rparr>)"

subsection \<open>The callbacks of the delegate\<close>

text \<open>
  The loop of \<open>_location_change\<close>: while the queue is not empty, pop its last cell
  and settle it with the location. An exception of \<open>set_result\<close> leaves the loop with
  the cell already popped.
\<close>

function location_change_loop :: "LatLng \<Rightarrow> Geolocation \<Rightarrow> Geolocation outcome" where
  "location_change_loop latlng s =
     (if location_requests s \<noteq> [] then
        (let future = last (location_requests s);
             s1 = s\<lparr>location_requests := butlast (location_requests s)\<rparr>
         in case set_result future (VLatLng latlng) s1 of
              (Some e, s2) \<Rightarrow> (Some e, s2)
            | (None, s2) \<Rightarrow> location_change_loop latlng s2)
      else (None, s))"
  by pat_completeness auto
termination
proof (relation "measure (\<lambda>(latlng, s). length (location_requests s))", goal_cases)
  case 1
  show ?case by simp
next
  case (2 latlng s future s1 r s2)
  then show ?case
    by (auto dest!: sym [of "(None, s2)"] dest: set_result_location_requests)
qed

declare location_change_loop.simps [simp del]

definition location_change :: "CLLocation \<Rightarrow> Geolocation \<Rightarrow> Geolocation outcome" where
  "location_change location s =
     (let latlng = LatLng (latitude (coordinate location)) (longitude (coordinate location));
          altitude = (if gt_zero (verticalAccuracy location)
                      then Some (ellipsoidalAltitude location) else None)
      in case location_change_loop latlng s of
           (Some e, s1) \<Rightarrow> (Some e, s1)
         | (None, s1) \<Rightarrow>
             (None, s1\<lparr>on_change_calls := on_change_calls s1 @ [(latlng, altitude)]\<rparr>))"

text \<open>
  The loop of \<open>_location_error\<close>: the same, settling each cell with the exception.
  The message is the f-string \<open>Unable to obtain a location ({error})\<close>, where \<open>error\<close>
  stands for the text of the native error.
\<close>

function location_error_loop :: "string \<Rightarrow> Geolocation \<Rightarrow> Geolocation outcome" where
  "location_error_loop err s =
     (if location_requests s \<noteq> [] then
        (let future = last (location_requests s);
             s1 = s\<lparr>location_requests := butlast (location_requests s)\<rparr>
         in case set_exception future
                   (RuntimeError (''Unable to obtain a location ('' @ err @ '')'')) s1 of
              (Some e, s2) \<Rightarrow> (Some e, s2)
            | (None, s2) \<Rightarrow> location_error_loop err s2)
      else (None, s))"
  by pat_completeness auto
termination
proof (relation "measure (\<lambda>(err, s). length (location_requests s))", goal_cases)
  case 1
  show ?case by simp
next
  case (2 err s future s1 r s2)
  then show ?case
    by (auto dest!: sym [of "(None, s2)"] dest: set_exception_location_requests)
qed

declare location_error_loop.simps [simp del]

definition location_error :: "string \<Rightarrow> Geolocation \<Rightarrow> Geolocation outcome" where
  "location_error err s = location_error_loop err s"

text \<open>
  \<open>TogaLocationDelegate.locationManager_didUpdateLocations_\<close> passes on
  \<open>locations[-1]\<close>, which raises on an empty batch.
\<close>

definition locationManager_didUpdateLocations ::
  "CLLocation list \<Rightarrow> Geolocation \<Rightarrow> Geolocation outcome" where
  "locationManager_didUpdateLocations locations s =
     (if locations = [] then (Some IndexError, s)
      else location_change (last locations) s)"

definition locationManager_didFailWithError ::
  "string \<Rightarrow> Geolocation \<Rightarrow> Geolocation outcome" where
  "locationManager_didFailWithError err s = location_error err s"

subsection \<open>Locations and tracking\<close>

definition current_location :: "fut \<Rightarrow> Geolocation \<Rightarrow> Geolocation outcome" where
  "current_location result s =
     (if has_permission s True then
        (case native_location s of
           None \<Rightarrow>
             (None, s\<lparr>location_requests := location_requests s @ [result],
                      native_calls := native_calls s @ [RequestLocation]\<rparr>)
         | Some location \<Rightarrow>
             set_result result
               (VLatLng (LatLng (latitude (coordinate location))
                                (longitude (coordinate location)))) s)
      else
        (Some (PermissionError
           ''App does not have permission to use geolocation services''), s))"

definition start :: "Geolocation \<Rightarrow> Geolocation outcome" where
  "start s =
     (if has_permission s True
      then (None, s\<lparr>native_calls := native_calls s @ [StartUpdatingLocation]\<rparr>)
      else
        (Some (PermissionError
           ''App does not have permission to use geolocation services''), s))"

definition stop :: "Geolocation \<Rightarrow> Geolocation outcome" where
  "stop s =
     (if has_permission s True
      then (None, s\<lparr>native_calls := native_calls s @ [StopUpdatingLocation]\<rparr>)
      else
        (Some (PermissionError
           ''App does not have permission to use geolocation services''), s))"

subsection \<open>The interface in front of the backend\<close>

text \<open>
  Modelled from the spec: the method \<open>request_background_permission()\<close> of the
  location service's interface (\<open>toga.hardware.location\<close>) is not part of the sources
  at hand; only its backend and its tests are. The specification says: it fails
  immediately (fatal, not queued) if the current state is \<open>NoPermission\<close> or \<open>Denied\<close>,
  with "cannot ask for background permission before confirming foreground permission";
  if foreground permission is granted it behaves like \<open>request_permission()\<close>, which
  returns success immediately (no native call) when the permission asked for is already
  there and otherwise hands the fresh result cell to the backend. The message is the one
  the tests expect.
\<close>

definition Location_request_background_permission ::
  "fut \<Rightarrow> Geolocation \<Rightarrow> Geolocation outcome" where
  "Location_request_background_permission result s =
     (if has_background_permission s then set_result result (VBool True) s
      else if has_permission s False then request_background_permission result s
      else
        (Some (PermissionError
           (''Cannot ask for background location permission '' @
            ''before confirming foreground location permission.'')), s))"

text \<open>A queue is well formed when its cells are pending and no cell is queued twice.\<close>

definition pending_queue :: "Geolocation \<Rightarrow> bool" where
  "pending_queue s =
     (distinct (location_requests s) \<and>
      list_all (\<lambda>f. futures s f = Pending) (location_requests s))"

subsection \<open>Facts about the permission test and the two loops\<close>

lemma has_permission_False_iff:
  "has_permission s False \<longleftrightarrow>
     authorizationStatus s = AuthorizedAlways \<or> authorizationStatus s = AuthorizedWhenInUse"
  by (simp add: has_permission_def)

lemma has_permission_True_iff:
  "has_permission s True \<longleftrightarrow>
     authorizationStatus s = NotDetermined \<or> authorizationStatus s = AuthorizedAlways \<or>
     authorizationStatus s = AuthorizedWhenInUse"
  by (simp add: has_permission_def)

lemma location_change_loop_drains:
  assumes "pending_queue s"
  shows "location_change_loop v s =
     (None, s\<lparr>location_requests := [],
              futures := (\<lambda>f. if f \<in> set (location_requests s) then Result (VLatLng v)
                               else futures s f)\<rparr>)"
  using assms unfolding pending_queue_def
proof (induction "location_requests s" arbitrary: s rule: rev_induct)
  case Nil
  then show ?case by (simp add: location_change_loop.simps)
next
  case (snoc x xs)
  let ?s2 = "s\<lparr>location_requests := xs, futures := (futures s)(x := Result (VLatLng v))\<rparr>"
  have q: "location_requests s = xs @ [x]" using snoc.hyps(2) by simp
  have px: "futures s x = Pending" and d: "distinct xs" "x \<notin> set xs"
    and pxs: "list_all (\<lambda>f. futures s f = Pending) xs"
    using snoc.prems q by (auto simp: list_all_iff)
  have step: "location_change_loop v s = location_change_loop v ?s2"
    by (subst location_change_loop.simps) (simp add: q set_result_def px)
  have ih: "location_change_loop v ?s2 =
     (None, ?s2\<lparr>location_requests := [],
              futures := (\<lambda>f. if f \<in> set (location_requests ?s2) then Result (VLatLng v)
                               else futures ?s2 f)\<rparr>)"
    using d pxs by (intro snoc.hyps(1)) (auto simp: list_all_iff)
  show ?case unfolding step ih by (auto simp: q fun_eq_iff)
qed

lemma location_error_loop_drains:
  assumes "pending_queue s"
  shows "location_error_loop err s =
     (None, s\<lparr>location_requests := [],
              futures := (\<lambda>f. if f \<in> set (location_requests s)
                               then Exception (RuntimeError (''Unable to obtain a location ('' @ err @ '')''))
                               else futures s f)\<rparr>)"
  using assms unfolding pending_queue_def
proof (induction "location_requests s" arbitrary: s rule: rev_induct)
  case Nil
  then show ?case by (simp add: location_error_loop.simps)
next
  case (snoc x xs)
  let ?e = "RuntimeError (''Unable to obtain a location ('' @ err @ '')'')"
  let ?s2 = "s\<lparr>location_requests := xs, futures := (futures s)(x := Exception ?e)\<rparr>"
  have q: "location_requests s = xs @ [x]" using snoc.hyps(2) by simp
  have px: "futures s x = Pending" and d: "distinct xs" "x \<notin> set xs"
    and pxs: "list_all (\<lambda>f. futures s f = Pending) xs"
    using snoc.prems q by (auto simp: list_all_iff)
  have step: "location_error_loop err s = location_error_loop err ?s2"
    by (subst location_error_loop.simps) (simp add: q set_exception_def px)
  have ih: "location_error_loop err ?s2 =
     (None, ?s2\<lparr>location_requests := [],
              futures := (\<lambda>f. if f \<in> set (location_requests ?s2) then Exception ?e
                               else futures ?s2 f)\<rparr>)"
    using d pxs by (intro snoc.hyps(1)) (auto simp: list_all_iff)
  show ?case unfolding step ih by (auto simp: q fun_eq_iff)
qed

lemma location_change_loop_on_change_calls:
  "location_change_loop v s = (e, s') \<Longrightarrow> on_change_calls s' = on_change_calls s"
proof (induction v s arbitrary: e s' rule: location_change_loop.induct)
  case (1 latlng s)
  show ?case
  proof (cases "location_requests s = []")
    case True
    with "1.prems" show ?thesis by (simp add: location_change_loop.simps)
  next
    case False
    let ?s1 = "s\<lparr>location_requests := butlast (location_requests s)\<rparr>"
    obtain r s2 where sr: "set_result (last (location_requests s)) (VLatLng latlng) ?s1 = (r, s2)"
      by (cases "set_result (last (location_requests s)) (VLatLng latlng) ?s1") auto
    have o2: "on_change_calls s2 = on_change_calls s"
      using sr by (auto simp: set_result_def split: if_splits)
    show ?thesis
    proof (cases r)
      case None
      have "location_change_loop latlng s2 = (e, s')"
        using "1.prems" False sr None by (subst (asm) location_change_loop.simps) simp
      from "1.IH" [OF False refl refl _ refl this] sr None o2 show ?thesis by simp
    next
      case (Some x)
      then show ?thesis
        using "1.prems" False sr o2 by (subst (asm) location_change_loop.simps) auto
    qed
  qed
qed

text \<open>
  The queue of a new \<open>Geolocation\<close> is empty, so well formed; a request with a fresh
  cell and the two callbacks keep the queue well formed.
\<close>

lemma pending_queue_empty: "location_requests s = [] \<Longrightarrow> pending_queue s"
  by (simp add: pending_queue_def)

lemma current_location_pending_queue:
  assumes "pending_queue s" and "futures s result = Pending"
    and "result \<notin> set (location_requests s)"
  shows "pending_queue (snd (current_location result s))"
  using assms
  by (auto simp: pending_queue_def current_location_def set_result_def list_all_iff
        split: option.splits)

lemma location_change_pending_queue:
  "pending_queue s \<Longrightarrow> pending_queue (snd (location_change location s))"
  by (simp add: location_change_def Let_def location_change_loop_drains pending_queue_def)

lemma location_error_pending_queue:
  "pending_queue s \<Longrightarrow> pending_queue (snd (location_error err s))"
  by (simp add: location_error_def location_error_loop_drains pending_queue_def)

section \<open>core: \<open>toga/platform.py\<close>\<close>

text \<open>The table \<open>_TOGA_PLATFORMS\<close>, from \<open>sys.platform\<close> to the platform names.\<close>

definition TOGA_PLATFORMS :: "(string \<times> string) list" where
  "TOGA_PLATFORMS =
     [(''android'', ''android''),
      (''darwin'', ''macOS''),
      (''ios'', ''iOS''),
      (''linux'', ''linux''),
      (''freebsd'', ''freeBSD''),
      (''tvos'', ''tvOS''),
      (''watchos'', ''watchOS''),
      (''wearos'', ''wearOS''),
      (''emscripten'', ''web''),
      (''win32'', ''windows'')]"

text \<open>
  \<open>get_current_platform\<close> reads whether \<open>sys\<close> has \<open>getandroidapilevel\<close>, and
  \<open>sys.platform\<close>; its result is the module's \<open>current_platform\<close>.
\<close>

definition get_current_platform :: "bool \<Rightarrow> string \<Rightarrow> string option" where
  "get_current_platform has_getandroidapilevel sys_platform =
     (if has_getandroidapilevel then Some ''android''
      else if prefix ''freebsd'' sys_platform then Some ''freeBSD''
      else map_of TOGA_PLATFORMS sys_platform)"

text \<open>
  An entry point of the group \<open>toga.backends\<close>: its name is the platform tag, its
  value the module of the backend. Entry points are equal, and ordered, by their
  fields.
\<close>

record EntryPoint =
  ep_name :: string
  ep_value :: string

text \<open>
  \<open>find_backends\<close> is \<open>sorted(set(entry_points(group="toga.backends")))\<close>; the
  argument is what \<open>entry_points\<close> returns.
\<close>

definition find_backends :: "EntryPoint list \<Rightarrow> EntryPoint list" where
  "find_backends entry_points =
     sort_key (\<lambda>ep. (ep_name ep, ep_value ep)) (remdups entry_points)"

text \<open>\<open>sep.join(xs)\<close>.\<close>

fun join :: "string \<Rightarrow> string list \<Rightarrow> string" where
  "join sep [] = []"
| "join sep [x] = x"
| "join sep (x # y # ys) = x @ sep @ join sep (y # ys)"

text \<open>
  \<open>_backends_list\<close>. The built-in \<open>repr\<close> of a string (the \<open>!r\<close> of the f-strings) is
  a parameter.
\<close>

definition backends_list :: "(string \<Rightarrow> string) \<Rightarrow> EntryPoint list \<Rightarrow> string" where
  "backends_list repr backends =
     join '', '' (map (\<lambda>backend. repr (ep_value backend) @ '' ('' @ ep_name backend @ '')'')
                     backends)"

text \<open>\<open>current_platform!r\<close>: the platform may be \<open>None\<close>.\<close>

definition repr_platform :: "(string \<Rightarrow> string) \<Rightarrow> string option \<Rightarrow> string" where
  "repr_platform repr p = (case p of None \<Rightarrow> ''None'' | Some t \<Rightarrow> repr t)"

text \<open>
  The body of \<open>get_platform_factory\<close>, the function that the decorator \<open>@cache\<close>
  wraps. Its inputs are the environment it reads: what \<open>importlib.import_module\<close>
  does for a module name (the module, or the exception it raises), the variable
  \<open>TOGA_BACKEND\<close> of \<open>os.environ\<close>, the installed entry points and
  \<open>current_platform\<close>. An unset and an empty \<open>TOGA_BACKEND\<close> are both false for
  the \<open>if\<close>.
\<close>

definition get_platform_factory_wrapped ::
  "(string \<Rightarrow> error + 'm) \<Rightarrow> (string \<Rightarrow> string) \<Rightarrow> string option \<Rightarrow> EntryPoint list \<Rightarrow>
   string option \<Rightarrow> error + 'm" where
  "get_platform_factory_wrapped import_module repr TOGA_BACKEND entry_points current_platform =
     (case TOGA_BACKEND of
        Some (c # cs) \<Rightarrow>
          (let backend_value = c # cs in
           case import_module (backend_value @ ''.factory'') of
             Inl (ModuleNotFoundError exc) \<Rightarrow>
               (let toga_backends_values =
                      join '', '' (map (\<lambda>backend. repr (ep_value backend))
                                      (find_backends entry_points))
                in Inl (RuntimeError
                     (''The backend specified by TOGA_BACKEND ('' @ repr backend_value @
                      '') could not be loaded ('' @ exc @ ''). It should be one of: '' @
                      toga_backends_values @ ''.'')))
           | Inl e \<Rightarrow> Inl e
           | Inr factory \<Rightarrow> Inr factory)
      | _ \<Rightarrow>
          (let toga_backends = find_backends entry_points in
           if length toga_backends = 0 then
             Inl (RuntimeError ''No Toga backend could be loaded.'')
           else if length toga_backends = 1 then
             import_module (ep_value (toga_backends ! 0) @ ''.factory'')
           else
             (let matching_backends =
                    filter (\<lambda>backend. Some (ep_name backend) = current_platform) toga_backends
              in if length matching_backends = 0 then
                   Inl (RuntimeError
                     (''Multiple Toga backends are installed ('' @
                      backends_list repr toga_backends @
                      ''), but none of them match your current platform ('' @
                      repr_platform repr current_platform @ ''). '' @
                      ''Install a backend for your current platform, or use '' @
                      ''TOGA_BACKEND to specify a backend.''))
                 else if length matching_backends = 1 then
                   import_module (ep_value (matching_backends ! 0) @ ''.factory'')
                 else
                   Inl (RuntimeError
                     (''Multiple candidate toga backends found: ('' @
                      backends_list repr matching_backends @
                      ''). Uninstall the backends you don't require, or use '' @
                      ''TOGA_BACKEND to specify a backend.'')))))"

text \<open>
  \<open>get_platform_factory\<close> as the module exports it, under \<open>@cache\<close>. The function
  takes no argument, so the cache of \<open>functools.cache\<close> is one slot: empty, or the
  factory that an earlier call returned. A call that finds the slot filled returns its
  content and reads nothing of the environment; a call that finds it empty runs the
  body and fills the slot with what the body returns; an exception of the body is not
  kept. The slot is part of the state: the function takes it and returns it.
\<close>

definition get_platform_factory ::
  "'m option \<Rightarrow> (string \<Rightarrow> error + 'm) \<Rightarrow> (string \<Rightarrow> string) \<Rightarrow> string option \<Rightarrow>
   EntryPoint list \<Rightarrow> string option \<Rightarrow> (error + 'm) \<times> 'm option" where
  "get_platform_factory cache import_module repr TOGA_BACKEND entry_points current_platform =
     (case cache of
        Some factory \<Rightarrow> (Inr factory, cache)
      | None \<Rightarrow>
          (case get_platform_factory_wrapped import_module repr TOGA_BACKEND entry_points
                  current_platform of
             Inl e \<Rightarrow> (Inl e, None)
           | Inr factory \<Rightarrow> (Inr factory, Some factory)))"

lemma get_platform_factory_cache_hit:
  "get_platform_factory (Some factory) import_module repr TOGA_BACKEND entry_points
     current_platform = (Inr factory, Some factory)"
  by (simp add: get_platform_factory_def)

lemma get_platform_factory_cache_miss:
  "get_platform_factory None import_module repr TOGA_BACKEND entry_points current_platform =
     (get_platform_factory_wrapped import_module repr TOGA_BACKEND entry_points
        current_platform,
      case get_platform_factory_wrapped import_module repr TOGA_BACKEND entry_points
             current_platform of
        Inl e \<Rightarrow> None
      | Inr factory \<Rightarrow> Some factory)"
  by (simp add: get_platform_factory_def split: sum.splits)

lemma set_find_backends: "set (find_backends eps) = set eps"
  by (simp add: find_backends_def)

lemma distinct_find_backends: "distinct (find_backends eps)"
  by (simp add: find_backends_def)

lemma length_find_backends: "length (find_backends eps) = card (set eps)"
  by (metis distinct_card distinct_find_backends set_find_backends)

lemma sublist_join:
  "x \<in> set xs \<Longrightarrow> sublist x (join sep xs)"
proof (induction sep xs rule: join.induct)
  case (1 sep)
  then show ?case by simp
next
  case (2 sep y)
  then show ?case by simp
next
  case (3 sep y z zs)
  show ?case
  proof (cases "x = y")
    case True
    then show ?thesis by (simp add: sublist_append_rightI)
  next
    case False
    with 3 have "sublist x (join sep (z # zs))" by simp
    then show ?thesis by (simp add: sublist_append)
  qed
qed

lemma backends_list_names:
  assumes "b \<in> set bs"
  shows "sublist (repr (ep_value b) @ '' ('' @ ep_name b @ '')'') (backends_list repr bs)"
  unfolding backends_list_def using assms by (intro sublist_join) auto

section \<open>core: the widgets\<close>

text \<open>
  A widget holds its native peer in \<open>_impl\<close>. The peers are the backends' and are not
  modelled: a peer is a value of a type parameter, and the peer methods a widget calls
  are parameters of the widget's methods (a getter of the peer reads the peer; a method
  that changes the peer returns the peer it leaves, or the exception it raises). The base class \<open>Widget\<close> is not part of the
  sources at hand either: its \<open>refresh()\<close> recomputes the layout, which is outside
  the state modelled here, and its \<open>app\<close> and \<open>window\<close> are plain attributes.

  The comparison \<open>x <= 0\<close> on a float.
\<close>

fun le_zero :: "pyfloat \<Rightarrow> bool" where
  "le_zero (Finite r) = (r \<le> 0)"
| "le_zero PosInf = False"
| "le_zero NegInf = True"
| "le_zero NaN = False"

text \<open>Applications, windows and child widgets are references.\<close>

type_synonym app = nat
type_synonym window = nat
type_synonym wref = nat

datatype Direction = HORIZONTAL | VERTICAL

subsection \<open>\<open>toga/widgets/divider.py\<close>\<close>

text \<open>
  The \<open>enabled\<close> property returns \<open>True\<close> and its setter is \<open>pass\<close>; \<open>direction\<close>
  is the peer's.
\<close>

record 'p Divider =
  Divider__impl :: 'p

definition Divider_enabled :: "'p Divider \<Rightarrow> bool" where
  "Divider_enabled self = True"

definition Divider_set_enabled :: "'a \<Rightarrow> 'p Divider \<Rightarrow> 'p Divider outcome" where
  "Divider_set_enabled val self = (None, self)"

definition Divider_direction :: "('p \<Rightarrow> Direction) \<Rightarrow> 'p Divider \<Rightarrow> Direction" where
  "Divider_direction get_direction self = get_direction (Divider__impl self)"

subsection \<open>\<open>toga/widgets/slider.py\<close>\<close>

text \<open>
  The slider keeps its handlers on the interface; its value, range and tick count are
  the peer's.
\<close>

record ('p, 'h) Slider =
  Slider__impl :: 'p
  Slider__on_change :: "'h option"
  Slider__on_press :: "'h option"
  Slider__on_release :: "'h option"

definition Slider_value :: "('p \<Rightarrow> pyfloat) \<Rightarrow> ('p, 'h) Slider \<Rightarrow> pyfloat" where
  "Slider_value get_value self = get_value (Slider__impl self)"

definition Slider_range ::
  "('p \<Rightarrow> pyfloat \<times> pyfloat) \<Rightarrow> ('p, 'h) Slider \<Rightarrow> pyfloat \<times> pyfloat" where
  "Slider_range get_range self = get_range (Slider__impl self)"

definition Slider_min :: "('p \<Rightarrow> pyfloat \<times> pyfloat) \<Rightarrow> ('p, 'h) Slider \<Rightarrow> pyfloat" where
  "Slider_min get_range self = fst (Slider_range get_range self)"

definition Slider_max :: "('p \<Rightarrow> pyfloat \<times> pyfloat) \<Rightarrow> ('p, 'h) Slider \<Rightarrow> pyfloat" where
  "Slider_max get_range self = snd (Slider_range get_range self)"

definition Slider_tick_count :: "('p \<Rightarrow> int option) \<Rightarrow> ('p, 'h) Slider \<Rightarrow> int option" where
  "Slider_tick_count get_tick_count self = get_tick_count (Slider__impl self)"

definition Slider_on_change :: "('p, 'h) Slider \<Rightarrow> 'h option" where
  "Slider_on_change self = Slider__on_change self"

subsection \<open>\<open>toga/widgets/detailedlist.py\<close>\<close>

text \<open>
  The detailed list keeps its data source (\<open>None\<close> until the first assignment), its
  accessors, the text for a missing value and the names of its actions on the interface.
\<close>

record ('p, 'src) DetailedList =
  DetailedList__impl :: 'p
  DetailedList__accessors :: "string \<times> string \<times> string"
  DetailedList__missing_value :: string
  DetailedList__primary_action :: "string option"
  DetailedList__secondary_action :: "string option"
  DetailedList__data :: "'src option"

definition DetailedList_enabled :: "('p, 'src) DetailedList \<Rightarrow> bool" where
  "DetailedList_enabled self = True"

definition DetailedList_set_enabled ::
  "'a \<Rightarrow> ('p, 'src) DetailedList \<Rightarrow> ('p, 'src) DetailedList outcome" where
  "DetailedList_set_enabled val self = (None, self)"

definition DetailedList_data :: "('p, 'src) DetailedList \<Rightarrow> 'src option" where
  "DetailedList_data self = DetailedList__data self"

definition DetailedList_accessors :: "('p, 'src) DetailedList \<Rightarrow> string \<times> string \<times> string" where
  "DetailedList_accessors self = DetailedList__accessors self"

definition DetailedList_missing_value :: "('p, 'src) DetailedList \<Rightarrow> string" where
  "DetailedList_missing_value self = DetailedList__missing_value self"

text \<open>
  The value assigned to \<open>data\<close>: \<open>None\<close>, a \<open>Source\<close>, or another iterable (its
  rows). The classes \<open>Source\<close> and \<open>ListSource\<close> are not part of the sources at
  hand: the constructor \<open>ListSource(data=..., accessors=...)\<close> and the method
  \<open>add_listener\<close> of a source (which returns the source it leaves, or the exception
  it raises) are parameters, as is the peer's \<open>change_source\<close>. The setter stores the
  source in \<open>_data\<close> first; \<open>add_listener\<close> then changes that same object, and
  the peer is told last.
\<close>

datatype ('src, 'row) data_arg = NoData | GivenSource 'src | GivenRows "'row list"

definition DetailedList_set_data ::
  "('row list \<Rightarrow> string \<times> string \<times> string \<Rightarrow> 'src) \<Rightarrow> ('p \<Rightarrow> 'src \<Rightarrow> error + 'src) \<Rightarrow>
   ('src \<Rightarrow> 'p \<Rightarrow> error + 'p) \<Rightarrow> ('src, 'row) data_arg \<Rightarrow> ('p, 'src) DetailedList \<Rightarrow>
   ('p, 'src) DetailedList outcome" where
  "DetailedList_set_data ListSource add_listener change_source data self =
     (let source =
            (case data of
               NoData \<Rightarrow> ListSource [] (DetailedList_accessors self)
             | GivenSource given \<Rightarrow> given
             | GivenRows rows \<Rightarrow> ListSource rows (DetailedList_accessors self));
          self1 = self\<lparr>DetailedList__data := Some source\<rparr>
      in case add_listener (DetailedList__impl self1) source of
           Inl e \<Rightarrow> (Some e, self1)
         | Inr source' \<Rightarrow>
             (let self2 = self1\<lparr>DetailedList__data := Some source'\<rparr>
              in case change_source source' (DetailedList__impl self2) of
                   Inl e \<Rightarrow> (Some e, self2)
                 | Inr peer \<Rightarrow> (None, self2\<lparr>DetailedList__impl := peer\<rparr>)))"

subsection \<open>\<open>toga/widgets/splitcontainer.py\<close>\<close>

text \<open>
  The container keeps the list of its two panels' widgets in \<open>_content\<close>. The
  widgets are objects that the setter of \<open>content\<close> changes (it assigns their \<open>app\<close>
  and \<open>window\<close>), so they live in a store. An item of the assigned sequence is a widget
  or \<open>None\<close>, a pair of such a value and a flex value, or a tuple of another length.
\<close>

record 'p child =
  child__impl :: 'p
  child_app :: "app option"
  child_window :: "window option"

record 'p SplitContainer =
  SplitContainer__impl :: 'p
  SplitContainer__content :: "wref option list"
  SplitContainer_app :: "app option"
  SplitContainer_window :: "window option"
  widgets :: "wref \<Rightarrow> 'p child"

datatype item = Item "wref option" | Tuple2 "wref option" pyfloat | BadTuple

definition SplitContainer_enabled :: "'p SplitContainer \<Rightarrow> bool" where
  "SplitContainer_enabled self = True"

definition SplitContainer_set_enabled ::
  "'a \<Rightarrow> 'p SplitContainer \<Rightarrow> 'p SplitContainer outcome" where
  "SplitContainer_set_enabled val self = (None, self)"

definition SplitContainer_content :: "'p SplitContainer \<Rightarrow> wref option list" where
  "SplitContainer_content self = SplitContainer__content self"

text \<open>
  The loop of the setter of \<open>content\<close>, with its two accumulators. A \<open>ValueError\<close>
  leaves the loop with the widgets of the earlier items already changed.
\<close>

fun content_loop ::
  "item list \<Rightarrow> wref option list \<Rightarrow> pyfloat list \<Rightarrow> 'p SplitContainer \<Rightarrow>
   (error + wref option list \<times> pyfloat list) \<times> 'p SplitContainer" where
  "content_loop [] content flex self = (Inr (content, flex), self)"
| "content_loop (item # items) content flex self =
     (case (case item of
              Tuple2 widget flex_value \<Rightarrow>
                if le_zero flex_value
                then Inl (ValueError
                       ''The flex value for an item in a SplitContainer must be >0'')
                else Inr (widget, flex_value)
            | BadTuple \<Rightarrow>
                Inl (ValueError
                  (''An item in SplitContainer content must be a 2-tuple '' @
                   ''containing the widget, and the flex weight to assign to that '' @
                   ''widget.''))
            | Item widget \<Rightarrow> Inr (widget, Finite 1)) of
        Inl e \<Rightarrow> (Inl e, self)
      | Inr (widget, flex_value) \<Rightarrow>
          content_loop items (content @ [widget]) (flex @ [flex_value])
            (case widget of
               None \<Rightarrow> self
             | Some w \<Rightarrow>
                 self\<lparr>widgets := (widgets self)
                   (w := (widgets self w)\<lparr>child_app := SplitContainer_app self,
                                           child_window := SplitContainer_window self\<rparr>)\<rparr>))"

text \<open>
  The setter of \<open>content\<close>: the peer is told first, and \<open>_content\<close> is assigned
  only after the peer's \<open>set_content\<close> has returned.
\<close>

definition SplitContainer_set_content ::
  "('p option list \<Rightarrow> pyfloat list \<Rightarrow> 'p \<Rightarrow> error + 'p) \<Rightarrow> item list \<Rightarrow>
   'p SplitContainer \<Rightarrow> 'p SplitContainer outcome" where
  "SplitContainer_set_content set_content content self =
     (if length content \<noteq> 2 then
        (Some (ValueError
           ''SplitContainer content must be a sequence with exactly 2 elements''), self)
      else
        (case content_loop content [] [] self of
           (Inl e, s1) \<Rightarrow> (Some e, s1)
         | (Inr (content', flex), s1) \<Rightarrow>
             (case set_content
                     (map (map_option (\<lambda>w. child__impl (widgets s1 w))) content') flex
                     (SplitContainer__impl s1) of
                Inl e \<Rightarrow> (Some e, s1)
              | Inr peer \<Rightarrow>
                  (None, s1\<lparr>SplitContainer__impl := peer,
                            SplitContainer__content := content'\<rparr>))))"

definition SplitContainer_direction :: "('p \<Rightarrow> Direction) \<Rightarrow> 'p SplitContainer \<Rightarrow> Direction" where
  "SplitContainer_direction get_direction self = get_direction (SplitContainer__impl self)"

text \<open>The widget of a well-formed item.\<close>

fun item_widget :: "item \<Rightarrow> wref option" where
  "item_widget (Item widget) = widget"
| "item_widget (Tuple2 widget flex_value) = widget"
| "item_widget BadTuple = None"

lemma content_loop_keeps_content:
  "content_loop items content flex self = (r, s') \<Longrightarrow>
   SplitContainer__content s' = SplitContainer__content self"
proof (induction items arbitrary: content flex self)
  case Nil
  then show ?case by simp
next
  case (Cons item items)
  then show ?case
    by (cases item) (auto split: if_splits option.splits dest!: Cons.IH)
qed

lemma content_loop_widgets:
  "content_loop items content flex self = (Inr (content', flex'), s') \<Longrightarrow>
   content' = content @ map item_widget items"
proof (induction items arbitrary: content flex self)
  case Nil
  then show ?case by simp
next
  case (Cons item items)
  then show ?case
    by (cases item) (auto split: if_splits option.splits dest!: Cons.IH)
qed

section \<open>The location service: properties\<close>

subsection \<open>Sample inputs\<close>

text \<open>
  A state with two queued location requests (cells 3 and 5) and one cell settled
  earlier (cell 1); a location whose vertical accuracy is zero; a second location.
\<close>

definition sample_location :: CLLocation where
  "sample_location =
     \<lparr>coordinate = \<lparr>latitude = Finite 37, longitude = Finite 42\<rparr>,
      verticalAccuracy = Finite 0, ellipsoidalAltitude = Finite 5\<rparr>"

definition sample_state :: Geolocation where
  "sample_state =
     \<lparr>authorizationStatus = AuthorizedWhenInUse, native_location = None, native_calls = [],
      permission_requests = [], location_requests = [3, 5],
      futures = (\<lambda>f. if f = 1 then Result (VLatLng (LatLng (Finite 1) (Finite 2))) else Pending),
      on_change_calls = []\<rparr>"

definition other_location :: CLLocation where
  "other_location =
     \<lparr>coordinate = \<lparr>latitude = Finite 0, longitude = Finite 0\<rparr>,
      verticalAccuracy = Finite 1, ellipsoidalAltitude = Finite 0\<rparr>"

text \<open>
  The same state with the permission denied, with the permission not yet asked for,
  and with a location cached by the native manager.
\<close>

definition denied_state :: Geolocation where
  "denied_state = sample_state\<lparr>authorizationStatus := Denied\<rparr>"

definition undetermined_state :: Geolocation where
  "undetermined_state = sample_state\<lparr>authorizationStatus := NotDetermined\<rparr>"

definition cached_state :: Geolocation where
  "cached_state = sample_state\<lparr>native_location := Some sample_location\<rparr>"

lemma pending_queue_sample_state: "pending_queue sample_state"
  by (simp add: pending_queue_def sample_state_def)

subsection \<open>Success callback\<close>

text \<open>
  C1. When the native success callback fires while N location requests are queued
  (their cells pending, none queued twice), for any N: the callback returns normally,
  the queue is empty afterwards, every queued cell holds the location of the callback,
  every other cell is as it was, and the change listener has been invoked exactly once
  more, with that location.
\<close>

theorem location_change_settles_queue_notifies_once:
  assumes "pending_queue s"
  shows "case location_change location s of (e, s') \<Rightarrow>
           e = None \<and> location_requests s' = [] \<and>
           (\<forall>f \<in> set (location_requests s).
              futures s' f =
                Result (VLatLng (LatLng (latitude (coordinate location))
                                        (longitude (coordinate location))))) \<and>
           (\<forall>f. f \<notin> set (location_requests s) \<longrightarrow> futures s' f = futures s f) \<and>
           on_change_calls s' =
             on_change_calls s @
               [(LatLng (latitude (coordinate location)) (longitude (coordinate location)),
                 if gt_zero (verticalAccuracy location)
                 then Some (ellipsoidalAltitude location) else None)]"
  by (simp add: location_change_def Let_def location_change_loop_drains [OF assms])

theorem location_change_settles_queue_notifies_once_witness:
  "pending_queue sample_state \<and>
   length (location_requests sample_state) = 2 \<and>
   fst (location_change sample_location sample_state) = None \<and>
   location_requests (snd (location_change sample_location sample_state)) = [] \<and>
   futures (snd (location_change sample_location sample_state)) 3 =
     Result (VLatLng (LatLng (Finite 37) (Finite 42))) \<and>
   futures (snd (location_change sample_location sample_state)) 5 =
     Result (VLatLng (LatLng (Finite 37) (Finite 42))) \<and>
   on_change_calls (snd (location_change sample_location sample_state)) =
     [(LatLng (Finite 37) (Finite 42), None)]"
  using location_change_settles_queue_notifies_once
          [OF pending_queue_sample_state, of sample_location]
  by (auto simp: pending_queue_sample_state split: prod.splits)
     (simp_all add: sample_state_def sample_location_def)

subsection \<open>Batches\<close>

text \<open>
  C4. A batch of several location updates acts as its last update alone: whatever
  the earlier entries are, the pending requests are settled with the last location and
  the listener is invoked once, with the last location.
\<close>

theorem batch_uses_last_location_only:
  assumes "pending_queue s"
  shows "locationManager_didUpdateLocations (earlier @ [L2]) s = location_change L2 s \<and>
         (case locationManager_didUpdateLocations (earlier @ [L2]) s of (e, s') \<Rightarrow>
            e = None \<and>
            (\<forall>f \<in> set (location_requests s).
               futures s' f =
                 Result (VLatLng (LatLng (latitude (coordinate L2))
                                         (longitude (coordinate L2))))) \<and>
            on_change_calls s' =
              on_change_calls s @
                [(LatLng (latitude (coordinate L2)) (longitude (coordinate L2)),
                  if gt_zero (verticalAccuracy L2)
                  then Some (ellipsoidalAltitude L2) else None)])"
  by (simp add: locationManager_didUpdateLocations_def location_change_def Let_def
        location_change_loop_drains [OF assms])

theorem batch_uses_last_location_only_witness:
  "pending_queue sample_state \<and>
   fst (locationManager_didUpdateLocations [other_location, sample_location] sample_state) = None \<and>
   futures (snd (locationManager_didUpdateLocations [other_location, sample_location]
                   sample_state)) 3 =
     Result (VLatLng (LatLng (Finite 37) (Finite 42))) \<and>
   futures (snd (locationManager_didUpdateLocations [other_location, sample_location]
                   sample_state)) 5 =
     Result (VLatLng (LatLng (Finite 37) (Finite 42))) \<and>
   on_change_calls (snd (locationManager_didUpdateLocations [other_location, sample_location]
                           sample_state)) =
     [(LatLng (Finite 37) (Finite 42), None)]"
  using batch_uses_last_location_only
          [OF pending_queue_sample_state, of "[other_location]" sample_location]
  by (auto simp: pending_queue_sample_state split: prod.splits)
     (simp_all add: sample_state_def sample_location_def)

subsection \<open>Failure callback\<close>

text \<open>
  C5. When the native failure callback fires, every queued cell is settled with a
  \<open>RuntimeError\<close> that describes the native error and the queue is left empty; the
  callback raises no \<open>InvalidStateError\<close>, cells outside the queue (the settled ones
  among them) keep their content, and a further failure callback changes nothing, so
  no cell is settled twice; the change listener is not invoked and nothing is asked of
  the native manager.
\<close>

theorem location_error_fails_every_pending_request:
  assumes "pending_queue s"
  shows "case location_error err s of (e, s') \<Rightarrow>
           e = None \<and> location_requests s' = [] \<and>
           (\<forall>f \<in> set (location_requests s).
              futures s' f =
                Exception (RuntimeError (''Unable to obtain a location ('' @ err @ '')''))) \<and>
           (\<forall>f. f \<notin> set (location_requests s) \<longrightarrow> futures s' f = futures s f) \<and>
           on_change_calls s' = on_change_calls s \<and>
           native_calls s' = native_calls s \<and>
           location_error err' s' = (None, s')"
  by (simp add: location_error_def location_error_loop_drains [OF assms]
        location_error_loop.simps [of err'])

theorem location_error_fails_every_pending_request_witness:
  "pending_queue sample_state \<and>
   fst (location_error ''denied'' sample_state) = None \<and>
   location_requests (snd (location_error ''denied'' sample_state)) = [] \<and>
   futures (snd (location_error ''denied'' sample_state)) 3 =
     Exception (RuntimeError ''Unable to obtain a location (denied)'') \<and>
   futures (snd (location_error ''denied'' sample_state)) 5 =
     Exception (RuntimeError ''Unable to obtain a location (denied)'') \<and>
   futures (snd (location_error ''denied'' sample_state)) 1 =
     Result (VLatLng (LatLng (Finite 1) (Finite 2))) \<and>
   on_change_calls (snd (location_error ''denied'' sample_state)) = []"
  using location_error_fails_every_pending_request
          [OF pending_queue_sample_state, of "''denied''" "''denied''"]
  by (auto simp: pending_queue_sample_state split: prod.splits)
     (simp_all add: sample_state_def)

subsection \<open>Background permission\<close>

text \<open>
  The backend method hands every request to the native manager: it tests nothing. The
  test of the foreground permission is the interface's.
\<close>

lemma request_background_permission_unguarded:
  "request_background_permission future s =
     (None, s\<lparr>permission_requests := permission_requests s @ [future],
              native_calls := native_calls s @ [RequestAlwaysAuthorization]\<rparr>)"
  by (simp add: request_background_permission_def)

text \<open>
  C3. Whenever the foreground permission has not been granted (the status is
  undetermined, denied or restricted), in whatever state earlier calls have left the
  service, \<open>request_background_permission()\<close> raises the \<open>PermissionError\<close> of the
  precondition at once and leaves the state as it was: the request is not queued and
  the native manager is not asked for an authorization.
\<close>

theorem background_permission_requires_foreground:
  assumes "authorizationStatus s = NotDetermined \<or> authorizationStatus s = Denied \<or>
           authorizationStatus s = Restricted"
  shows "Location_request_background_permission result s =
           (Some (PermissionError
              (''Cannot ask for background location permission '' @
               ''before confirming foreground location permission.'')), s)"
  using assms
  by (auto simp: Location_request_background_permission_def has_background_permission_def
        has_permission_False_iff)

theorem background_permission_requires_foreground_witness:
  "fst (Location_request_background_permission 7 undetermined_state) =
     Some (PermissionError
       ''Cannot ask for background location permission before confirming foreground location permission.'') \<and>
   permission_requests (snd (Location_request_background_permission 7 undetermined_state)) = [] \<and>
   native_calls (snd (Location_request_background_permission 7 undetermined_state)) = [] \<and>
   fst (Location_request_background_permission 7 denied_state) =
     Some (PermissionError
       ''Cannot ask for background location permission before confirming foreground location permission.'') \<and>
   snd (Location_request_background_permission 7 denied_state) = denied_state"
  using background_permission_requires_foreground [of undetermined_state 7]
        background_permission_requires_foreground [of denied_state 7]
  by (simp add: undetermined_state_def denied_state_def sample_state_def)

subsection \<open>One-shot location\<close>

text \<open>
  C6. \<open>current_location\<close> raises a \<open>PermissionError\<close> and leaves the state as it was
  (no native call) when the permission is neither undetermined nor granted; with such
  a permission and a cached native location it settles the fresh result cell at once,
  with no native call and nothing queued; with such a permission and no cached
  location it queues the cell and asks the native manager for exactly one location.
\<close>

theorem current_location_three_ways:
  shows "(\<not> has_permission s True \<longrightarrow>
            current_location result s =
              (Some (PermissionError
                 ''App does not have permission to use geolocation services''), s)) \<and>
         (has_permission s True \<and> native_location s = Some location \<and>
          futures s result = Pending \<longrightarrow>
            current_location result s =
              (None, s\<lparr>futures := (futures s)(result :=
                  Result (VLatLng (LatLng (latitude (coordinate location))
                                          (longitude (coordinate location)))))\<rparr>)) \<and>
         (has_permission s True \<and> native_location s = None \<longrightarrow>
            current_location result s =
              (None, s\<lparr>location_requests := location_requests s @ [result],
                       native_calls := native_calls s @ [RequestLocation]\<rparr>))"
  by (simp add: current_location_def set_result_def)

theorem current_location_three_ways_witness:
  "\<not> has_permission denied_state True \<and>
   current_location 7 denied_state =
     (Some (PermissionError ''App does not have permission to use geolocation services''),
      denied_state) \<and>
   has_permission cached_state True \<and> native_location cached_state = Some sample_location \<and>
   futures cached_state 7 = Pending \<and>
   fst (current_location 7 cached_state) = None \<and>
   futures (snd (current_location 7 cached_state)) 7 =
     Result (VLatLng (LatLng (Finite 37) (Finite 42))) \<and>
   native_calls (snd (current_location 7 cached_state)) = [] \<and>
   location_requests (snd (current_location 7 cached_state)) = [3, 5] \<and>
   has_permission undetermined_state True \<and> native_location undetermined_state = None \<and>
   fst (current_location 7 undetermined_state) = None \<and>
   location_requests (snd (current_location 7 undetermined_state)) = [3, 5, 7] \<and>
   native_calls (snd (current_location 7 undetermined_state)) = [RequestLocation]"
  using current_location_three_ways
          [where s = denied_state and result = 7 and location = sample_location]
        current_location_three_ways
          [where s = cached_state and result = 7 and location = sample_location]
        current_location_three_ways
          [where s = undetermined_state and result = 7 and location = sample_location]
  by (simp add: has_permission_True_iff denied_state_def cached_state_def
        undetermined_state_def sample_state_def sample_location_def)

subsection \<open>Stopping\<close>

text \<open>
  C7, as stated, fails: with the permission denied and tracking never started,
  \<open>stop\<close> raises a \<open>PermissionError\<close>.
\<close>

theorem stop_raises_when_permission_denied:
  "stop denied_state =
     (Some (PermissionError ''App does not have permission to use geolocation services''),
      denied_state) \<and>
   StartUpdatingLocation \<notin> set (native_calls denied_state)"
  by (simp add: stop_def has_permission_True_iff denied_state_def sample_state_def)

text \<open>
  C7, amended. In every state in which the permission is undetermined or granted,
  whether or not tracking was started before, \<open>stop\<close> does not raise: it passes the
  stop on to the native manager and touches neither the queues, nor the cells, nor the
  listener. In every state in which the permission is denied or restricted it raises a
  \<open>PermissionError\<close> and changes nothing.
\<close>

theorem stop_without_start:
  "(has_permission s True \<longrightarrow>
      stop s = (None, s\<lparr>native_calls := native_calls s @ [StopUpdatingLocation]\<rparr>)) \<and>
   (\<not> has_permission s True \<longrightarrow>
      stop s =
        (Some (PermissionError
           ''App does not have permission to use geolocation services''), s))"
  by (simp add: stop_def)

theorem stop_without_start_witness:
  "has_permission undetermined_state True \<and>
   StartUpdatingLocation \<notin> set (native_calls undetermined_state) \<and>
   fst (stop undetermined_state) = None \<and>
   fst (stop (snd (stop undetermined_state))) = None \<and>
   location_requests (snd (stop undetermined_state)) = location_requests undetermined_state \<and>
   on_change_calls (snd (stop undetermined_state)) = on_change_calls undetermined_state \<and>
   \<not> has_permission denied_state True \<and>
   fst (stop denied_state) =
     Some (PermissionError ''App does not have permission to use geolocation services'')"
  using stop_without_start [of undetermined_state]
        stop_without_start [of "snd (stop undetermined_state)"]
        stop_without_start [of denied_state]
  by (simp add: has_permission_True_iff denied_state_def
        undetermined_state_def sample_state_def)

subsection \<open>Altitude\<close>

text \<open>
  C8. Whatever \<open>_location_change\<close> does, it hands the listener at most one sample,
  and in that sample the altitude is absent when the vertical accuracy is not strictly
  positive (any finite value at most zero, the negative infinity, a NaN), whatever the
  coordinates and the reported altitude are; the altitude is present, and is the native
  altitude, only when the vertical accuracy is strictly positive.
\<close>

theorem altitude_absent_unless_vertical_accuracy_positive:
  assumes "location_change location s = (e, s')"
  shows "on_change_calls s' = on_change_calls s \<or>
         (\<exists>altitude.
            on_change_calls s' =
              on_change_calls s @
                [(LatLng (latitude (coordinate location)) (longitude (coordinate location)),
                  altitude)] \<and>
            (gt_zero (verticalAccuracy location) \<longrightarrow>
               altitude = Some (ellipsoidalAltitude location)) \<and>
            (\<not> gt_zero (verticalAccuracy location) \<longrightarrow> altitude = None) \<and>
            (\<forall>r. verticalAccuracy location = Finite r \<and> r \<le> 0 \<longrightarrow> altitude = None) \<and>
            (altitude \<noteq> None \<longrightarrow>
               verticalAccuracy location = PosInf \<or>
               (\<exists>r. 0 < r \<and> verticalAccuracy location = Finite r)))"
proof -
  let ?L = "LatLng (latitude (coordinate location)) (longitude (coordinate location))"
  obtain e1 s1 where l: "location_change_loop ?L s = (e1, s1)"
    by (cases "location_change_loop ?L s") auto
  have o: "on_change_calls s1 = on_change_calls s"
    using l by (rule location_change_loop_on_change_calls)
  show ?thesis
  proof (cases e1)
    case None
    with assms l o show ?thesis
      by (cases "verticalAccuracy location") (auto simp: location_change_def Let_def)
  next
    case (Some x)
    with assms l o show ?thesis by (auto simp: location_change_def Let_def)
  qed
qed

theorem altitude_absent_unless_vertical_accuracy_positive_witness:
  "verticalAccuracy sample_location = Finite 0 \<and>
   ellipsoidalAltitude sample_location = Finite 5 \<and>
   fst (location_change sample_location sample_state) = None \<and>
   on_change_calls (snd (location_change sample_location sample_state)) =
     [(LatLng (Finite 37) (Finite 42), None)] \<and>
   on_change_calls (snd (location_change other_location sample_state)) =
     [(LatLng (Finite 0) (Finite 0), Some (Finite 0))]"
  using altitude_absent_unless_vertical_accuracy_positive
          [of sample_location sample_state "fst (location_change sample_location sample_state)"
              "snd (location_change sample_location sample_state)"]
        altitude_absent_unless_vertical_accuracy_positive
          [of other_location sample_state "fst (location_change other_location sample_state)"
              "snd (location_change other_location sample_state)"]
  by (simp add: location_change_def Let_def
        location_change_loop_drains [OF pending_queue_sample_state])
     (simp add: sample_state_def sample_location_def other_location_def)

section \<open>Backend resolution: properties\<close>

subsection \<open>Sample inputs\<close>

text \<open>
  A \<open>repr\<close> that puts a string between single quotes, as Python does for a string
  with no quote and no escape in it; an \<open>import_module\<close> that finds every module and
  returns its name; three entry points, two of them for the same platform.
\<close>

definition sample_repr :: "string \<Rightarrow> string" where
  "sample_repr t = [CHR 0x27] @ t @ [CHR 0x27]"

definition sample_import :: "string \<Rightarrow> error + string" where
  "sample_import module_name = Inr module_name"

definition gtk :: EntryPoint where
  "gtk = \<lparr>ep_name = ''linux'', ep_value = ''toga_gtk''\<rparr>"

definition dummy :: EntryPoint where
  "dummy = \<lparr>ep_name = ''linux'', ep_value = ''toga_dummy''\<rparr>"

definition cocoa :: EntryPoint where
  "cocoa = \<lparr>ep_name = ''macOS'', ep_value = ''toga_cocoa''\<rparr>"

subsection \<open>The counting algorithm\<close>

text \<open>
  C2. On a call that finds the cache empty (the first call, or a call after calls
  that raised), with \<open>TOGA_BACKEND\<close> unset or empty, resolution counts the discovered
  (de-duplicated, sorted) entry points. None: it raises the \<open>RuntimeError\<close> "No Toga
  backend could be loaded.". Exactly one: it imports the factory of that backend,
  whatever the current platform is. More than one: it keeps those whose name is the
  current platform; if none is left it raises an error whose message lists every
  installed backend, if exactly one is left it imports the factory of that one, and if
  more than one is left it raises an error whose message names each of the candidates.
  The call leaves the cache empty when it raises and filled with the factory when it
  returns one.
\<close>

theorem get_platform_factory_counts_backends:
  fixes import_module :: "string \<Rightarrow> error + 'm"
    and repr :: "string \<Rightarrow> string"
    and TOGA_BACKEND current_platform :: "string option"
    and entry_points :: "EntryPoint list"
    and cache :: "'m option"
  assumes "cache = None"
    and "TOGA_BACKEND = None \<or> TOGA_BACKEND = Some []"
  defines "found \<equiv> find_backends entry_points"
  defines "matching \<equiv> filter (\<lambda>backend. Some (ep_name backend) = current_platform) found"
  defines "call \<equiv>
    get_platform_factory cache import_module repr TOGA_BACKEND entry_points current_platform"
  defines "factory \<equiv> fst call"
  shows "snd call = (case factory of Inl e \<Rightarrow> None | Inr m \<Rightarrow> Some m) \<and>
         (found = [] \<longrightarrow> factory = Inl (RuntimeError ''No Toga backend could be loaded.'')) \<and>
         (\<forall>b. found = [b] \<longrightarrow> factory = import_module (ep_value b @ ''.factory'')) \<and>
         (1 < length found \<and> matching = [] \<longrightarrow>
            factory =
              Inl (RuntimeError
                (''Multiple Toga backends are installed ('' @ backends_list repr found @
                 ''), but none of them match your current platform ('' @
                 repr_platform repr current_platform @ ''). '' @
                 ''Install a backend for your current platform, or use '' @
                 ''TOGA_BACKEND to specify a backend.'')) \<and>
            (\<forall>b \<in> set entry_points.
               sublist (repr (ep_value b) @ '' ('' @ ep_name b @ '')'')
                 (backends_list repr found))) \<and>
         (\<forall>b. 1 < length found \<and> matching = [b] \<longrightarrow>
            factory = import_module (ep_value b @ ''.factory'')) \<and>
         (1 < length found \<and> 1 < length matching \<longrightarrow>
            factory =
              Inl (RuntimeError
                (''Multiple candidate toga backends found: ('' @
                 backends_list repr matching @
                 ''). Uninstall the backends you don't require, or use '' @
                 ''TOGA_BACKEND to specify a backend.'')) \<and>
            (\<forall>b \<in> set matching.
               sublist (repr (ep_value b) @ '' ('' @ ep_name b @ '')'')
                 (backends_list repr matching)))"
proof -
  have disc: "factory =
    (if length found = 0 then Inl (RuntimeError ''No Toga backend could be loaded.'')
     else if length found = 1 then import_module (ep_value (found ! 0) @ ''.factory'')
     else if length matching = 0 then
       Inl (RuntimeError
         (''Multiple Toga backends are installed ('' @ backends_list repr found @
          ''), but none of them match your current platform ('' @
          repr_platform repr current_platform @ ''). '' @
          ''Install a backend for your current platform, or use '' @
          ''TOGA_BACKEND to specify a backend.''))
     else if length matching = 1 then import_module (ep_value (matching ! 0) @ ''.factory'')
     else
       Inl (RuntimeError
         (''Multiple candidate toga backends found: ('' @
          backends_list repr matching @
          ''). Uninstall the backends you don't require, or use '' @
          ''TOGA_BACKEND to specify a backend.'')))"
    using assms(2)
    unfolding factory_def call_def assms(1) get_platform_factory_cache_miss fst_conv
      found_def matching_def get_platform_factory_wrapped_def Let_def
    by (elim disjE) simp_all
  have kept: "snd call = (case factory of Inl e \<Rightarrow> None | Inr m \<Rightarrow> Some m)"
    unfolding factory_def call_def assms(1) get_platform_factory_cache_miss by simp
  have c0: "found = [] \<longrightarrow> factory = Inl (RuntimeError ''No Toga backend could be loaded.'')"
    by (simp add: disc)
  have c1: "\<forall>b. found = [b] \<longrightarrow> factory = import_module (ep_value b @ ''.factory'')"
    by (simp add: disc)
  have names: "\<forall>b \<in> set entry_points.
      sublist (repr (ep_value b) @ '' ('' @ ep_name b @ '')'') (backends_list repr found)"
    using backends_list_names [of _ found repr]
    by (simp add: found_def set_find_backends)
  have c2: "1 < length found \<and> matching = [] \<longrightarrow>
      factory =
        Inl (RuntimeError
          (''Multiple Toga backends are installed ('' @ backends_list repr found @
           ''), but none of them match your current platform ('' @
           repr_platform repr current_platform @ ''). '' @
           ''Install a backend for your current platform, or use '' @
           ''TOGA_BACKEND to specify a backend.'')) \<and>
      (\<forall>b \<in> set entry_points.
         sublist (repr (ep_value b) @ '' ('' @ ep_name b @ '')'') (backends_list repr found))"
    using names by (simp add: disc)
  have c3: "\<forall>b. 1 < length found \<and> matching = [b] \<longrightarrow>
      factory = import_module (ep_value b @ ''.factory'')"
    by (simp add: disc)
  have c4: "1 < length found \<and> 1 < length matching \<longrightarrow>
      factory =
        Inl (RuntimeError
          (''Multiple candidate toga backends found: ('' @
           backends_list repr matching @
           ''). Uninstall the backends you don't require, or use '' @
           ''TOGA_BACKEND to specify a backend.'')) \<and>
      (\<forall>b \<in> set matching.
         sublist (repr (ep_value b) @ '' ('' @ ep_name b @ '')'') (backends_list repr matching))"
    using backends_list_names [of _ matching repr] by (simp add: disc)
  from kept c0 c1 c2 c3 c4 show ?thesis by blast
qed

theorem get_platform_factory_counts_backends_witness:
  "find_backends [] = [] \<and>
   get_platform_factory None sample_import sample_repr None [] (Some ''linux'') =
     (Inl (RuntimeError ''No Toga backend could be loaded.''), None) \<and>
   find_backends [gtk, gtk] = [gtk] \<and>
   get_platform_factory None sample_import sample_repr (Some []) [gtk, gtk]
       (Some ''windows'') =
     (Inr ''toga_gtk.factory'', Some ''toga_gtk.factory'') \<and>
   find_backends [gtk, cocoa] = [gtk, cocoa] \<and>
   get_platform_factory None sample_import sample_repr None [gtk, cocoa] (Some ''windows'') =
     (Inl (RuntimeError
        (''Multiple Toga backends are installed ('toga_gtk' (linux), 'toga_cocoa' (macOS)), '' @
         ''but none of them match your current platform ('windows'). '' @
         ''Install a backend for your current platform, or use '' @
         ''TOGA_BACKEND to specify a backend.'')), None) \<and>
   get_platform_factory None sample_import sample_repr None [gtk, cocoa] (Some ''linux'') =
     (Inr ''toga_gtk.factory'', Some ''toga_gtk.factory'') \<and>
   find_backends [gtk, dummy] = [dummy, gtk] \<and>
   get_platform_factory None sample_import sample_repr None [gtk, dummy] (Some ''linux'') =
     (Inl (RuntimeError
        (''Multiple candidate toga backends found: ('toga_dummy' (linux), 'toga_gtk' (linux)). '' @
         ''Uninstall the backends you don't require, or use '' @
         ''TOGA_BACKEND to specify a backend.'')), None)"
proof -
  have f0: "find_backends [] = []"
    and f1: "find_backends [gtk, gtk] = [gtk]"
    and f2: "find_backends [gtk, cocoa] = [gtk, cocoa]"
    and f3: "find_backends [gtk, dummy] = [dummy, gtk]"
    by (simp_all add: find_backends_def gtk_def cocoa_def dummy_def)
  note t = get_platform_factory_counts_backends
    [where cache = None and import_module = sample_import and repr = sample_repr]
  have a: "get_platform_factory None sample_import sample_repr None [] (Some ''linux'') =
      (Inl (RuntimeError ''No Toga backend could be loaded.''), None)"
    using t [where TOGA_BACKEND = None and entry_points = "[]"
        and current_platform = "Some ''linux''"]
    unfolding f0
    by (simp add: prod_eq_iff)
  have b: "get_platform_factory None sample_import sample_repr (Some []) [gtk, gtk]
      (Some ''windows'') = (Inr ''toga_gtk.factory'', Some ''toga_gtk.factory'')"
    using t [where TOGA_BACKEND = "Some []" and entry_points = "[gtk, gtk]"
        and current_platform = "Some ''windows''"]
    unfolding f1
    by (simp add: prod_eq_iff sample_import_def gtk_def)
  have c: "get_platform_factory None sample_import sample_repr None [gtk, cocoa]
      (Some ''windows'') =
     (Inl (RuntimeError
        (''Multiple Toga backends are installed ('toga_gtk' (linux), 'toga_cocoa' (macOS)), '' @
         ''but none of them match your current platform ('windows'). '' @
         ''Install a backend for your current platform, or use '' @
         ''TOGA_BACKEND to specify a backend.'')), None)"
    using t [where TOGA_BACKEND = None and entry_points = "[gtk, cocoa]"
        and current_platform = "Some ''windows''"]
    unfolding f2
    by (simp add: prod_eq_iff backends_list_def repr_platform_def sample_repr_def gtk_def
          cocoa_def)
  have d: "get_platform_factory None sample_import sample_repr None [gtk, cocoa]
      (Some ''linux'') = (Inr ''toga_gtk.factory'', Some ''toga_gtk.factory'')"
    using t [where TOGA_BACKEND = None and entry_points = "[gtk, cocoa]"
        and current_platform = "Some ''linux''"]
    unfolding f2
    by (simp add: prod_eq_iff sample_import_def gtk_def cocoa_def)
  have e: "get_platform_factory None sample_import sample_repr None [gtk, dummy]
      (Some ''linux'') =
     (Inl (RuntimeError
        (''Multiple candidate toga backends found: ('toga_dummy' (linux), 'toga_gtk' (linux)). '' @
         ''Uninstall the backends you don't require, or use '' @
         ''TOGA_BACKEND to specify a backend.'')), None)"
    using t [where TOGA_BACKEND = None and entry_points = "[gtk, dummy]"
        and current_platform = "Some ''linux''"]
    unfolding f3
    by (simp add: prod_eq_iff backends_list_def sample_repr_def gtk_def dummy_def)
  from f0 f1 f2 f3 a b c d e show ?thesis by blast
qed

section \<open>The widgets: properties\<close>

subsection \<open>Sample inputs\<close>

text \<open>
  A container in an application and a window, with empty panels, whose peer counts
  the calls of \<open>set_content\<close> it has received.
\<close>

definition sample_container :: "nat SplitContainer" where
  "sample_container =
     \<lparr>SplitContainer__impl = 0, SplitContainer__content = [None, None],
      SplitContainer_app = Some 1, SplitContainer_window = Some 2,
      widgets = (\<lambda>w. \<lparr>child__impl = w, child_app = None, child_window = None\<rparr>)\<rparr>"

definition sample_set_content ::
  "nat option list \<Rightarrow> pyfloat list \<Rightarrow> nat \<Rightarrow> error + nat" where
  "sample_set_content peers flex peer = Inr (peer + 1)"

text \<open>
  A detailed list with no data yet. A source is its rows and its listeners; the peer's
  \<open>change_source\<close> fails.
\<close>

definition sample_list :: "(nat, nat list \<times> nat list) DetailedList" where
  "sample_list =
     \<lparr>DetailedList__impl = 0,
      DetailedList__accessors = (''title'', ''subtitle'', ''icon''),
      DetailedList__missing_value = [],
      DetailedList__primary_action = Some ''Delete'',
      DetailedList__secondary_action = Some ''Action'',
      DetailedList__data = None\<rparr>"

definition sample_ListSource ::
  "nat list \<Rightarrow> string \<times> string \<times> string \<Rightarrow> nat list \<times> nat list" where
  "sample_ListSource rows accessors = (rows, [])"

definition sample_add_listener ::
  "nat \<Rightarrow> nat list \<times> nat list \<Rightarrow> error + nat list \<times> nat list" where
  "sample_add_listener peer source = Inr (fst source, snd source @ [peer])"

definition failing_change_source :: "nat list \<times> nat list \<Rightarrow> nat \<Rightarrow> error + nat" where
  "failing_change_source source peer = Inl (OtherException ''the peer failed'')"

text \<open>A slider with no handler, whose peer is a number.\<close>

definition sample_slider :: "(nat, nat) Slider" where
  "sample_slider =
     \<lparr>Slider__impl = 0, Slider__on_change = None, Slider__on_press = None,
      Slider__on_release = None\<rparr>"

subsection \<open>Getters\<close>

text \<open>
  C9, as stated, fails: the getter of \<open>SplitContainer.content\<close> returns the list
  kept on the interface. Two containers with the same peer and different \<open>_content\<close>
  answer differently, and a container answers the same whatever its peer is.
\<close>

theorem content_getter_returns_interface_field:
  "SplitContainer__impl (sample_container\<lparr>SplitContainer__content := [Some 4, None]\<rparr>) =
     SplitContainer__impl sample_container \<and>
   SplitContainer_content (sample_container\<lparr>SplitContainer__content := [Some 4, None]\<rparr>) \<noteq>
     SplitContainer_content sample_container \<and>
   SplitContainer_content (sample_container\<lparr>SplitContainer__impl := 9\<rparr>) =
     SplitContainer_content sample_container"
  by (simp add: SplitContainer_content_def sample_container_def)

text \<open>
  C9, amended. The getters of the values that the peer holds read the peer at call
  time, whatever the interface holds: \<open>Slider.value\<close>, \<open>range\<close>, \<open>min\<close>, \<open>max\<close>
  and \<open>tick_count\<close>, and the \<open>direction\<close> of a \<open>Divider\<close> and of a
  \<open>SplitContainer\<close>, are what the peer's getter returns for the current peer. The
  getters of \<open>SplitContainer.content\<close>, \<open>DetailedList.data\<close>,
  \<open>DetailedList.accessors\<close>, \<open>DetailedList.missing_value\<close> and
  \<open>Slider.on_change\<close> return what the interface holds, whatever the peer is. What
  the interface holds: for \<open>content\<close>, the widgets of the assigned sequence after an
  assignment whose validation and peer call raised nothing, and the list as it was
  after an assignment that raised there; for \<open>data\<close>, after any assignment, also one
  whose peer call raised, the assigned source, or the \<open>ListSource\<close> built from the
  assigned value, as \<open>add_listener\<close> left it (the peer added to its listeners).
\<close>

theorem getters_read_peer_or_interface:
  fixes slider :: "('p, 'h) Slider" and divider :: "'d Divider"
    and container :: "'q SplitContainer" and dlist :: "('r, 'src) DetailedList"
    and data :: "('src, 'row) data_arg"
  shows "Slider_value get_value (slider\<lparr>Slider__impl := p\<rparr>) = get_value p \<and>
         Slider_range get_range (slider\<lparr>Slider__impl := p\<rparr>) = get_range p \<and>
         Slider_min get_range (slider\<lparr>Slider__impl := p\<rparr>) = fst (get_range p) \<and>
         Slider_max get_range (slider\<lparr>Slider__impl := p\<rparr>) = snd (get_range p) \<and>
         Slider_tick_count get_tick_count (slider\<lparr>Slider__impl := p\<rparr>) = get_tick_count p \<and>
         Divider_direction divider_get_direction (divider\<lparr>Divider__impl := d\<rparr>) =
           divider_get_direction d \<and>
         SplitContainer_direction container_get_direction
             (container\<lparr>SplitContainer__impl := q\<rparr>) =
           container_get_direction q \<and>
         Slider_on_change (slider\<lparr>Slider__impl := p\<rparr>) = Slider__on_change slider \<and>
         SplitContainer_content (container\<lparr>SplitContainer__impl := q\<rparr>) =
           SplitContainer__content container \<and>
         DetailedList_data (dlist\<lparr>DetailedList__impl := r\<rparr>) = DetailedList__data dlist \<and>
         DetailedList_accessors (dlist\<lparr>DetailedList__impl := r\<rparr>) =
           DetailedList__accessors dlist \<and>
         DetailedList_missing_value (dlist\<lparr>DetailedList__impl := r\<rparr>) =
           DetailedList__missing_value dlist \<and>
         (SplitContainer_set_content set_content content container = (None, container') \<longrightarrow>
            SplitContainer_content container' = map item_widget content) \<and>
         (SplitContainer_set_content set_content content container = (Some e, container'') \<longrightarrow>
            SplitContainer_content container'' = SplitContainer_content container) \<and>
         (DetailedList_set_data ListSource add_listener change_source data dlist =
            (e', dlist') \<longrightarrow>
            DetailedList_data dlist' =
              (let source =
                     (case data of
                        NoData \<Rightarrow> ListSource [] (DetailedList__accessors dlist)
                      | GivenSource given \<Rightarrow> given
                      | GivenRows rows \<Rightarrow> ListSource rows (DetailedList__accessors dlist))
               in case add_listener (DetailedList__impl dlist) source of
                    Inl failure \<Rightarrow> Some source
                  | Inr source' \<Rightarrow> Some source'))"
proof -
  have peer: "Slider_value get_value (slider\<lparr>Slider__impl := p\<rparr>) = get_value p"
    "Slider_range get_range (slider\<lparr>Slider__impl := p\<rparr>) = get_range p"
    "Slider_min get_range (slider\<lparr>Slider__impl := p\<rparr>) = fst (get_range p)"
    "Slider_max get_range (slider\<lparr>Slider__impl := p\<rparr>) = snd (get_range p)"
    "Slider_tick_count get_tick_count (slider\<lparr>Slider__impl := p\<rparr>) = get_tick_count p"
    "Divider_direction divider_get_direction (divider\<lparr>Divider__impl := d\<rparr>) =
       divider_get_direction d"
    "SplitContainer_direction container_get_direction
         (container\<lparr>SplitContainer__impl := q\<rparr>) =
       container_get_direction q"
    by (simp_all add: Slider_value_def Slider_range_def Slider_min_def Slider_max_def
          Slider_tick_count_def Divider_direction_def SplitContainer_direction_def)
  have kept: "Slider_on_change (slider\<lparr>Slider__impl := p\<rparr>) = Slider__on_change slider"
    "SplitContainer_content (container\<lparr>SplitContainer__impl := q\<rparr>) =
       SplitContainer__content container"
    "DetailedList_data (dlist\<lparr>DetailedList__impl := r\<rparr>) = DetailedList__data dlist"
    "DetailedList_accessors (dlist\<lparr>DetailedList__impl := r\<rparr>) =
       DetailedList__accessors dlist"
    "DetailedList_missing_value (dlist\<lparr>DetailedList__impl := r\<rparr>) =
       DetailedList__missing_value dlist"
    by (simp_all add: Slider_on_change_def SplitContainer_content_def DetailedList_data_def
          DetailedList_accessors_def DetailedList_missing_value_def)
  have stored: "SplitContainer_set_content set_content content container = (None, container') \<longrightarrow>
      SplitContainer_content container' = map item_widget content"
    by (auto simp: SplitContainer_content_def SplitContainer_set_content_def
          split: if_splits prod.splits sum.splits dest: content_loop_widgets)
  have refused: "SplitContainer_set_content set_content content container =
        (Some e, container'') \<longrightarrow>
      SplitContainer_content container'' = SplitContainer_content container"
    by (auto simp: SplitContainer_content_def SplitContainer_set_content_def
          split: if_splits prod.splits sum.splits dest: content_loop_keeps_content)
  have source: "DetailedList_set_data ListSource add_listener change_source data dlist =
        (e', dlist') \<longrightarrow>
      DetailedList_data dlist' =
        (let source =
               (case data of
                  NoData \<Rightarrow> ListSource [] (DetailedList__accessors dlist)
                | GivenSource given \<Rightarrow> given
                | GivenRows rows \<Rightarrow> ListSource rows (DetailedList__accessors dlist))
         in case add_listener (DetailedList__impl dlist) source of
              Inl failure \<Rightarrow> Some source
            | Inr source' \<Rightarrow> Some source')"
    by (cases data)
       (auto simp: DetailedList_set_data_def DetailedList_data_def DetailedList_accessors_def
          Let_def split: sum.splits)
  from peer kept stored refused source show ?thesis by blast
qed

theorem getters_read_peer_or_interface_witness:
  "Slider_value (\<lambda>peer. Finite (real peer)) (sample_slider\<lparr>Slider__impl := 3\<rparr>) = Finite 3 \<and>
   fst (SplitContainer_set_content sample_set_content [Item (Some 4), Tuple2 None (Finite 2)]
          sample_container) = None \<and>
   SplitContainer_content
     (snd (SplitContainer_set_content sample_set_content
             [Item (Some 4), Tuple2 None (Finite 2)] sample_container)) = [Some 4, None] \<and>
   fst (SplitContainer_set_content sample_set_content [Item (Some 4), Tuple2 None (Finite 0)]
          sample_container) =
     Some (ValueError ''The flex value for an item in a SplitContainer must be >0'') \<and>
   SplitContainer_content
     (snd (SplitContainer_set_content sample_set_content
             [Item (Some 4), Tuple2 None (Finite 0)] sample_container)) = [None, None] \<and>
   SplitContainer_content sample_container = [None, None] \<and>
   fst (DetailedList_set_data sample_ListSource sample_add_listener failing_change_source
          (GivenRows [1, 2]) sample_list) = Some (OtherException ''the peer failed'') \<and>
   DetailedList_data
     (snd (DetailedList_set_data sample_ListSource sample_add_listener failing_change_source
             (GivenRows [1, 2]) sample_list)) = Some ([1, 2], [0]) \<and>
   DetailedList_data sample_list = None"
proof -
  let ?ok = "SplitContainer_set_content sample_set_content
               [Item (Some 4), Tuple2 None (Finite 2)] sample_container"
  let ?bad = "SplitContainer_set_content sample_set_content
                [Item (Some 4), Tuple2 None (Finite 0)] sample_container"
  let ?dat = "DetailedList_set_data sample_ListSource sample_add_listener
                failing_change_source (GivenRows [1, 2]) sample_list"
  let ?flex = "ValueError ''The flex value for an item in a SplitContainer must be >0''"
  have ok: "fst ?ok = None" and bad: "fst ?bad = Some ?flex"
    by (simp_all add: SplitContainer_set_content_def sample_set_content_def)
  have dat: "fst ?dat = Some (OtherException ''the peer failed'')"
    by (simp add: DetailedList_set_data_def Let_def failing_change_source_def
          sample_add_listener_def)
  have okp: "?ok = (None, snd ?ok)" and badp: "?bad = (Some ?flex, snd ?bad)"
    and datp: "?dat = (fst ?dat, snd ?dat)"
    using ok bad by (simp_all add: prod_eq_iff)
  note t = getters_read_peer_or_interface
    [where get_value = "\<lambda>peer. Finite (real peer)" and slider = sample_slider and p = 3
       and get_range = "\<lambda>peer. (Finite 0, Finite 1)" and get_tick_count = "\<lambda>peer. None"
       and divider = "\<lparr>Divider__impl = 0\<rparr>" and d = "1 :: nat"
       and divider_get_direction = "\<lambda>peer. HORIZONTAL"
       and container_get_direction = "\<lambda>peer. VERTICAL" and q = 9 and r = 9
       and set_content = sample_set_content and container = sample_container
       and ListSource = sample_ListSource and add_listener = sample_add_listener
       and change_source = failing_change_source and dlist = sample_list
       and data = "GivenRows [1, 2]" and e' = "fst ?dat" and dlist' = "snd ?dat"
       and e = ?flex]
  note t_ok = t [where content = "[Item (Some 4), Tuple2 None (Finite 2)]"
       and container' = "snd ?ok" and container'' = "snd ?bad"]
  note t_bad = t [where content = "[Item (Some 4), Tuple2 None (Finite 0)]"
       and container' = "snd ?ok" and container'' = "snd ?bad"]
  have v: "Slider_value (\<lambda>peer. Finite (real peer)) (sample_slider\<lparr>Slider__impl := 3\<rparr>) =
      Finite 3"
    using t_ok by simp
  have "SplitContainer_content (snd ?ok) =
      map item_widget [Item (Some 4), Tuple2 None (Finite 2)]"
    using t_ok okp by blast
  then have a: "SplitContainer_content (snd ?ok) = [Some 4, None]"
    by simp
  have "SplitContainer_content (snd ?bad) = SplitContainer_content sample_container"
    using t_bad badp by blast
  then have b: "SplitContainer_content (snd ?bad) = [None, None]"
    by (simp add: SplitContainer_content_def sample_container_def)
  have "DetailedList_data (snd ?dat) =
      (let source =
             (case GivenRows [1, 2] of
                NoData \<Rightarrow> sample_ListSource [] (DetailedList__accessors sample_list)
              | GivenSource given \<Rightarrow> given
              | GivenRows rows \<Rightarrow> sample_ListSource rows (DetailedList__accessors sample_list))
       in case sample_add_listener (DetailedList__impl sample_list) source of
            Inl failure \<Rightarrow> Some source
          | Inr source' \<Rightarrow> Some source')"
    using t_ok datp by blast
  then have c: "DetailedList_data (snd ?dat) = Some ([1, 2], [0])"
    by (simp add: sample_ListSource_def sample_add_listener_def sample_list_def)
  have d: "SplitContainer_content sample_container = [None, None]"
    "DetailedList_data sample_list = None"
    by (simp_all add: SplitContainer_content_def sample_container_def DetailedList_data_def
          sample_list_def)
  from v ok bad dat a b c d show ?thesis by blast
qed

subsection \<open>The \<open>enabled\<close> property\<close>

text \<open>
  C10. For \<open>Divider\<close>, \<open>DetailedList\<close> and \<open>SplitContainer\<close>, \<open>enabled\<close> is
  \<open>True\<close> in every state, and assigning any value to it raises nothing and returns the
  widget as it was, its peer included; \<open>enabled\<close> is \<open>True\<close> afterwards too.
\<close>

theorem enabled_is_constant_and_inert:
  fixes divider :: "'p Divider" and dlist :: "('q, 'src) DetailedList"
    and container :: "'r SplitContainer"
  shows "Divider_enabled divider = True \<and>
         Divider_set_enabled a divider = (None, divider) \<and>
         Divider_enabled (snd (Divider_set_enabled a divider)) = True \<and>
         DetailedList_enabled dlist = True \<and>
         DetailedList_set_enabled b dlist = (None, dlist) \<and>
         DetailedList_enabled (snd (DetailedList_set_enabled b dlist)) = True \<and>
         SplitContainer_enabled container = True \<and>
         SplitContainer_set_enabled c container = (None, container) \<and>
         SplitContainer_enabled (snd (SplitContainer_set_enabled c container)) = True"
  by (simp add: Divider_enabled_def Divider_set_enabled_def DetailedList_enabled_def
        DetailedList_set_enabled_def SplitContainer_enabled_def SplitContainer_set_enabled_def)

end
